theory Spec2Isabelle
  imports Complex_Main
begin

section \<open>Numbers\<close>

text \<open>
  The Python source computes with \<open>float\<close> and \<open>int\<close>. Floats are idealised here as
  exact rationals (\<^typ>\<open>rat\<close>): every branch of the source compares, adds, multiplies
  or divides them, and the properties below are about those branches, not about binary
  rounding error. Values assigned to stored fields are kept exactly as assigned.

  Python 3's built-in \<open>round(x)\<close> with one argument returns the nearest integer and
  resolves an exact tie to the even neighbour.
\<close>

definition py_round :: "rat \<Rightarrow> int" where
  "py_round x =
     (let f = \<lfloor>x\<rfloor>; d = x - of_int f
      in if d < 1 / 2 then f
         else if 1 / 2 < d then f + 1
         else if even f then f else f + 1)"


text \<open>Python's \<open>a / b\<close> on floats raises \<open>ZeroDivisionError\<close> when \<open>b\<close> is zero.\<close>

definition py_truediv :: "rat \<Rightarrow> rat \<Rightarrow> rat option" where
  "py_truediv a b = (if b = 0 then None else Some (a / b))"


section \<open>Errors and diagnostics\<close>

datatype validation_message =
    MarkupNegative
  | MarkupExceeds1000
  | FactorNegative
  | FactorExceeds1
  | MarkupAlreadyExists int
  | VendorNotEditable

text \<open>
  \<open>ValidationError\<close> is raised by the source itself. \<open>ExpectedSingleton\<close> is the
  \<open>ValueError\<close> the ORM raises when a field is read on a recordset holding more than
  one record.
\<close>

datatype error = ValidationError validation_message | ExpectedSingleton

datatype log_entry =
    WarnNoFactorsConfigured
  | InfoBelowMinimum int int rat
  | InfoAboveMaximum int int rat
  | WarnNoFactorInRange int


section \<open>The commission factor table (\<open>sales.commission.factor\<close>)\<close>

record factor =
  rec_id :: nat
  markup_percentage :: int
  commission_factor :: rat
  active :: bool

text \<open>
  The table is the list of its rows in creation order.
  \<open>self.search([("active", "=", True)], order="markup_percentage ASC")\<close> keeps the active
  rows and sorts them by percentage.
\<close>

definition search_active :: "factor list \<Rightarrow> factor list" where
  "search_active tbl = sort_key markup_percentage (filter active tbl)"

text \<open>Reading a float field on a recordset: empty gives 0.0, several records raise.\<close>

fun read_float :: "('a \<Rightarrow> rat) \<Rightarrow> 'a list \<Rightarrow> error + rat" where
  "read_float fld [] = Inr 0"
| "read_float fld [r] = Inr (fld r)"
| "read_float fld (r # r' # rs) = Inl ExpectedSingleton"

definition get_commission_factor :: "factor list \<Rightarrow> rat \<Rightarrow> log_entry list \<times> (error + rat)" where
  "get_commission_factor tbl mp =
     (let rounded_markup = py_round mp;
          all_factors = search_active tbl
      in if all_factors = [] then ([WarnNoFactorsConfigured], Inr 0)
         else
           let exact_match = filter (\<lambda>f. markup_percentage f = rounded_markup) all_factors
           in if exact_match \<noteq> [] then ([], read_float commission_factor exact_match)
              else
                let min_factor_record = hd all_factors;
                    max_factor_record = last all_factors
                in if rounded_markup < markup_percentage min_factor_record
                   then ([InfoBelowMinimum rounded_markup (markup_percentage min_factor_record)
                            (commission_factor min_factor_record)],
                         Inr (commission_factor min_factor_record))
                   else if rounded_markup > markup_percentage max_factor_record
                   then ([InfoAboveMaximum rounded_markup (markup_percentage max_factor_record)
                            (commission_factor max_factor_record)],
                         Inr (commission_factor max_factor_record))
                   else ([WarnNoFactorInRange rounded_markup], Inr 0))"

text \<open>The value returned (or the exception raised) by the lookup, without its log.\<close>

definition resolve :: "factor list \<Rightarrow> rat \<Rightarrow> error + rat" where
  "resolve tbl mp = snd (get_commission_factor tbl mp)"


text \<open>
  The data-model invariant of the table: among active rows the percentages are pairwise
  distinct.
\<close>

definition unique_active :: "factor list \<Rightarrow> bool" where
  "unique_active tbl = distinct (map markup_percentage (filter active tbl))"



section \<open>Sale order lines (\<open>sale.order.line\<close>)\<close>

text \<open>
  \<open>purchase_price\<close> may have no value (\<open>None\<close>); Python's truth test treats that and
  \<open>0.0\<close> alike. \<open>price_subtotal\<close> is computed by the host order system and is an input
  here. \<open>line_markup_percentage\<close> and \<open>line_commission_factor\<close> are the line's fields
  \<open>markup_percentage\<close> and \<open>commission_factor\<close>.
\<close>

record sale_order_line =
  order_id :: nat
  price_unit :: rat
  purchase_price :: "rat option"
  product_uom_qty :: rat
  price_subtotal :: rat
  product_vendor_id :: "nat option"
  line_markup_percentage :: rat
  markup_amount :: rat
  line_commission_factor :: rat
  commission_amount :: rat

definition compute_markup_percentage :: "sale_order_line \<Rightarrow> sale_order_line" where
  "compute_markup_percentage line =
     (case purchase_price line of
        None \<Rightarrow> line\<lparr>line_markup_percentage := 0\<rparr>
      | Some cost \<Rightarrow>
          if price_unit line \<noteq> 0 \<and> cost \<noteq> 0 then
            (case py_truediv cost (price_unit line) of
               None \<Rightarrow> line\<lparr>line_markup_percentage := 0\<rparr>
             | Some q \<Rightarrow> line\<lparr>line_markup_percentage := of_int (py_round ((q - 1) * - 100))\<rparr>)
          else line\<lparr>line_markup_percentage := 0\<rparr>)"

definition compute_markup_amount :: "sale_order_line \<Rightarrow> sale_order_line" where
  "compute_markup_amount line =
     (case purchase_price line of
        None \<Rightarrow> line\<lparr>markup_amount := 0\<rparr>
      | Some cost \<Rightarrow>
          if price_unit line \<noteq> 0 \<and> cost \<noteq> 0
          then line\<lparr>markup_amount := price_unit line - cost\<rparr>
          else line\<lparr>markup_amount := 0\<rparr>)"

text \<open>
  The factor lookup may log and may raise; a raise leaves the field unassigned and aborts
  the recomputation.
\<close>

definition compute_commission_factor ::
  "factor list \<Rightarrow> sale_order_line \<Rightarrow> log_entry list \<times> (error + sale_order_line)" where
  "compute_commission_factor tbl line =
     (if line_markup_percentage line \<noteq> 0 then
        (case get_commission_factor tbl (line_markup_percentage line) of
           (logs, Inl e) \<Rightarrow> (logs, Inl e)
         | (logs, Inr v) \<Rightarrow> (logs, Inr (line\<lparr>line_commission_factor := v\<rparr>)))
      else ([], Inr (line\<lparr>line_commission_factor := 0\<rparr>)))"

definition compute_commission_amount :: "sale_order_line \<Rightarrow> sale_order_line" where
  "compute_commission_amount line =
     (if price_subtotal line \<noteq> 0 \<and> line_commission_factor line \<noteq> 0
      then line\<lparr>commission_amount := price_subtotal line * line_commission_factor line\<rparr>
      else line\<lparr>commission_amount := 0\<rparr>)"

text \<open>
  The four derived fields of a line, recomputed in the order of their declared
  dependencies: markup percentage and amount from the prices, the factor from the
  percentage, the commission from the subtotal and the factor.
\<close>

definition compute_line :: "factor list \<Rightarrow> sale_order_line \<Rightarrow> error + sale_order_line" where
  "compute_line tbl line =
     (case snd (compute_commission_factor tbl
                  (compute_markup_amount (compute_markup_percentage line))) of
        Inl e \<Rightarrow> Inl e
      | Inr line' \<Rightarrow> Inr (compute_commission_amount line'))"


text \<open>
  A line as the module's tests create it, before any derived field is computed: the host
  sets \<open>price_subtotal\<close> to price times quantity (no discount, taxes excluded).
\<close>

definition new_line :: "rat \<Rightarrow> rat option \<Rightarrow> rat \<Rightarrow> sale_order_line" where
  "new_line pu cost qty =
     \<lparr>order_id = 1, price_unit = pu, purchase_price = cost, product_uom_qty = qty,
      price_subtotal = pu * qty, product_vendor_id = None, line_markup_percentage = 0,
      markup_amount = 0, line_commission_factor = 0, commission_amount = 0\<rparr>"


subsection \<open>The vendor field guard of \<open>write\<close>\<close>

text \<open>
  The store a write works on: the current state of every order, by order id, and the line
  rows, by line id. \<open>can_edit_product_vendor\<close> is a computed, non-stored field, so it is
  evaluated from the order's state at the moment it is read.
\<close>

record line_store =
  order_state :: "nat \<rightharpoonup> string"
  line_rows :: "nat \<rightharpoonup> sale_order_line"

definition can_edit_product_vendor :: "line_store \<Rightarrow> sale_order_line \<Rightarrow> bool" where
  "can_edit_product_vendor st line =
     (case order_state st (order_id line) of
        None \<Rightarrow> False
      | Some s \<Rightarrow> s \<in> set [''draft'', ''sent''])"

text \<open>
  The \<open>vals\<close> dictionary of a write: a field is a key of the dictionary when its entry is
  not \<open>None\<close>. A vendor or a purchase price can be written to "no value".
\<close>

record line_vals =
  vals_product_vendor_id :: "nat option option"
  vals_price_unit :: "rat option"
  vals_purchase_price :: "rat option option"
  vals_product_uom_qty :: "rat option"

definition apply_line_vals :: "line_vals \<Rightarrow> sale_order_line \<Rightarrow> sale_order_line" where
  "apply_line_vals vals line =
     line\<lparr>product_vendor_id :=
            (case vals_product_vendor_id vals of None \<Rightarrow> product_vendor_id line | Some v \<Rightarrow> v),
          price_unit := (case vals_price_unit vals of None \<Rightarrow> price_unit line | Some v \<Rightarrow> v),
          purchase_price :=
            (case vals_purchase_price vals of None \<Rightarrow> purchase_price line | Some v \<Rightarrow> v),
          product_uom_qty :=
            (case vals_product_uom_qty vals of None \<Rightarrow> product_uom_qty line | Some v \<Rightarrow> v)\<rparr>"

text \<open>\<open>super().write(vals)\<close>: the host's write stores the values on every record of \<open>self\<close>.\<close>

fun super_write :: "line_store \<Rightarrow> nat list \<Rightarrow> line_vals \<Rightarrow> line_store" where
  "super_write st [] vals = st"
| "super_write st (i # ids) vals =
     super_write
       (case line_rows st i of
          None \<Rightarrow> st
        | Some line \<Rightarrow> st\<lparr>line_rows := (line_rows st)(i \<mapsto> apply_line_vals vals line)\<rparr>)
       ids vals"

text \<open>The loop \<open>for line in self: if not line.can_edit_product_vendor: raise\<close>.\<close>

fun vendor_guard :: "line_store \<Rightarrow> nat list \<Rightarrow> error option" where
  "vendor_guard st [] = None"
| "vendor_guard st (i # ids) =
     (case line_rows st i of
        None \<Rightarrow> vendor_guard st ids
      | Some line \<Rightarrow>
          if \<not> can_edit_product_vendor st line
          then Some (ValidationError VendorNotEditable)
          else vendor_guard st ids)"

text \<open>
  \<open>write\<close> returns \<open>True\<close> or raises; the store it leaves behind is returned beside the
  outcome. The guard raises before \<open>super().write\<close> is reached, so a refused write leaves
  the store as it was.
\<close>

definition write_lines ::
  "line_store \<Rightarrow> nat list \<Rightarrow> line_vals \<Rightarrow> (error + bool) \<times> line_store" where
  "write_lines st self vals =
     (if vals_product_vendor_id vals \<noteq> None then
        (case vendor_guard st self of
           Some e \<Rightarrow> (Inl e, st)
         | None \<Rightarrow> (Inr True, super_write st self vals))
      else (Inr True, super_write st self vals))"

text \<open>
  The store of the module's vendor test: one order and one line of it carrying vendor 7.
  The order is in the given state.
\<close>

definition test_store :: "string \<Rightarrow> line_store" where
  "test_store s =
     \<lparr>order_state = [1 \<mapsto> s],
      line_rows = [10 \<mapsto> (new_line 100 (Some 80) 1)\<lparr>product_vendor_id := Some 7\<rparr>]\<rparr>"

definition vendor_vals :: "nat option \<Rightarrow> line_vals" where
  "vendor_vals v =
     \<lparr>vals_product_vendor_id = Some v, vals_price_unit = None, vals_purchase_price = None,
      vals_product_uom_qty = None\<rparr>"

definition price_vals :: "rat \<Rightarrow> line_vals" where
  "price_vals p =
     \<lparr>vals_product_vendor_id = None, vals_price_unit = Some p, vals_purchase_price = None,
      vals_product_uom_qty = None\<rparr>"


section \<open>Sale orders (\<open>sale.order\<close>)\<close>





















section \<open>Creating and writing factor rows\<close>

text \<open>
  The three \<open>@api.constrains\<close> methods, each a loop over the records of \<open>self\<close> that
  raises at the first offending record. The uniqueness check searches the table for
  another active row with the record's percentage.
\<close>

fun check_markup_percentage :: "factor list \<Rightarrow> error option" where
  "check_markup_percentage [] = None"
| "check_markup_percentage (record # rest) =
     (if markup_percentage record < 0 then Some (ValidationError MarkupNegative)
      else if markup_percentage record > 1000 then Some (ValidationError MarkupExceeds1000)
      else check_markup_percentage rest)"

fun check_commission_factor :: "factor list \<Rightarrow> error option" where
  "check_commission_factor [] = None"
| "check_commission_factor (record # rest) =
     (if commission_factor record < 0 then Some (ValidationError FactorNegative)
      else if commission_factor record > 1 then Some (ValidationError FactorExceeds1)
      else check_commission_factor rest)"

fun check_unique_markup_percentage :: "factor list \<Rightarrow> factor list \<Rightarrow> error option" where
  "check_unique_markup_percentage tbl [] = None"
| "check_unique_markup_percentage tbl (record # rest) =
     (let existing =
            filter (\<lambda>r. markup_percentage r = markup_percentage record
                        \<and> rec_id r \<noteq> rec_id record \<and> active r) tbl
      in if existing \<noteq> [] then Some (ValidationError (MarkupAlreadyExists (markup_percentage record)))
         else check_unique_markup_percentage tbl rest)"

text \<open>
  The \<open>vals\<close> dictionary of a write on factor rows: a field is a key of the dictionary
  when its entry is not \<open>None\<close>.
\<close>

record factor_vals =
  vals_markup_percentage :: "int option"
  vals_commission_factor :: "rat option"
  vals_active :: "bool option"

text \<open>
  The ORM runs a constraint method after a create or a write only when one of the fields
  named in its \<open>@api.constrains\<close> decorator is among the fields created or written. Both
  percentage checks name \<open>markup_percentage\<close>, the factor check names
  \<open>commission_factor\<close>; none names \<open>active\<close>. The first error is raised.
\<close>

definition validate_fields :: "factor list \<Rightarrow> factor list \<Rightarrow> factor_vals \<Rightarrow> error option" where
  "validate_fields tbl self vals =
     (case (if vals_commission_factor vals \<noteq> None then check_commission_factor self else None) of
        Some e \<Rightarrow> Some e
      | None \<Rightarrow>
          (case (if vals_markup_percentage vals \<noteq> None then check_markup_percentage self else None) of
             Some e \<Rightarrow> Some e
           | None \<Rightarrow>
               (if vals_markup_percentage vals \<noteq> None
                then check_unique_markup_percentage tbl self else None)))"

definition apply_factor_vals :: "factor_vals \<Rightarrow> factor \<Rightarrow> factor" where
  "apply_factor_vals vals r =
     r\<lparr>markup_percentage :=
         (case vals_markup_percentage vals of None \<Rightarrow> markup_percentage r | Some v \<Rightarrow> v),
       commission_factor :=
         (case vals_commission_factor vals of None \<Rightarrow> commission_factor r | Some v \<Rightarrow> v),
       active := (case vals_active vals of None \<Rightarrow> active r | Some v \<Rightarrow> v)\<rparr>"

text \<open>
  \<open>records.write(vals)\<close> on the rows whose ids are in \<open>ids\<close>: the values are stored, the
  triggered constraints are checked on the written rows against the updated table, and an
  error rolls the write back (the table is not returned).
\<close>

definition factor_write :: "factor list \<Rightarrow> nat list \<Rightarrow> factor_vals \<Rightarrow> error + factor list" where
  "factor_write tbl ids vals =
     (let tbl' = map (\<lambda>r. if rec_id r \<in> set ids then apply_factor_vals vals r else r) tbl;
          self = filter (\<lambda>r. rec_id r \<in> set ids) tbl'
      in case validate_fields tbl' self vals of
           Some e \<Rightarrow> Inl e
         | None \<Rightarrow> Inr tbl')"

text \<open>
  \<open>create\<close> with the two required fields and an optional \<open>active\<close> (default \<open>True\<close>). The
  new row gets a fresh id; every field has a value, so all three constraints are checked.
\<close>

definition fresh_id :: "factor list \<Rightarrow> nat" where
  "fresh_id tbl = Suc (fold max (map rec_id tbl) 0)"

definition factor_create :: "factor list \<Rightarrow> int \<Rightarrow> rat \<Rightarrow> bool option \<Rightarrow> error + factor list" where
  "factor_create tbl mp cf act =
     (let record = \<lparr>rec_id = fresh_id tbl, markup_percentage = mp, commission_factor = cf,
                     active = (case act of None \<Rightarrow> True | Some a \<Rightarrow> a)\<rparr>;
          tbl' = tbl @ [record]
      in case validate_fields tbl' [record]
                \<lparr>vals_markup_percentage = Some mp, vals_commission_factor = Some cf,
                 vals_active = Some (active record)\<rparr> of
           Some e \<Rightarrow> Inl e
         | None \<Rightarrow> Inr tbl')"



text \<open>A write that names only the \<open>active\<close> flag.\<close>

definition active_vals :: "bool \<Rightarrow> factor_vals" where
  "active_vals b =
     \<lparr>vals_markup_percentage = None, vals_commission_factor = None, vals_active = Some b\<rparr>"


section \<open>Facts about the active rows\<close>

lemma set_search_active: "set (search_active tbl) = {e \<in> set tbl. active e}"
  by (auto simp: search_active_def)

lemma search_active_Nil: "search_active tbl = [] \<longleftrightarrow> (\<forall>e\<in>set tbl. \<not> active e)"
proof -
  have "search_active tbl = [] \<longleftrightarrow> set (search_active tbl) = {}" by simp
  then show ?thesis unfolding set_search_active by blast
qed






















section \<open>Facts about the derived fields of a line\<close>

lemma get_commission_factor_empty:
  "\<forall>e\<in>set tbl. \<not> active e \<Longrightarrow>
     get_commission_factor tbl p = ([WarnNoFactorsConfigured], Inr 0)"
  using search_active_Nil [of tbl] by (simp add: get_commission_factor_def)






lemma no_markup_data:
  assumes "price_unit line = 0 \<or> purchase_price line = None \<or> purchase_price line = Some 0"
  shows "compute_markup_percentage line = line\<lparr>line_markup_percentage := 0\<rparr>"
    and "compute_markup_amount line = line\<lparr>markup_amount := 0\<rparr>"
  using assms
  by (auto simp: compute_markup_percentage_def compute_markup_amount_def split: option.splits)



lemma compute_line_zero:
  assumes "line_markup_percentage (compute_markup_percentage line) = 0"
  shows "compute_line tbl line =
           Inr ((compute_markup_amount (compute_markup_percentage line))
                  \<lparr>line_commission_factor := 0, commission_amount := 0\<rparr>)"
proof -
  have mp: "line_markup_percentage (compute_markup_amount l) = line_markup_percentage l" for l
    by (simp add: compute_markup_amount_def split: option.splits)
  from assms show ?thesis
    by (simp add: compute_line_def compute_commission_factor_def compute_commission_amount_def mp)
qed






section \<open>Facts about the aggregates of an order\<close>















section \<open>Facts about the vendor guard\<close>

lemma vendor_guard_None:
  "vendor_guard st ids = None \<longleftrightarrow>
     (\<forall>j\<in>set ids. \<forall>l. line_rows st j = Some l \<longrightarrow> can_edit_product_vendor st l)"
  by (induction ids) (auto split: option.splits)

lemma vendor_guard_Some:
  "vendor_guard st ids = Some e \<Longrightarrow> e = ValidationError VendorNotEditable"
  by (induction ids) (auto split: option.splits if_splits)

lemma can_edit_iff:
  "can_edit_product_vendor st line \<longleftrightarrow>
     order_state st (order_id line) = Some ''draft'' \<or> order_state st (order_id line) = Some ''sent''"
  by (auto simp: can_edit_product_vendor_def split: option.splits)



section \<open>Facts about creating and writing factor rows\<close>

text \<open>
  A create that succeeds keeps the uniqueness invariant, and so does a successful write
  that names \<open>markup_percentage\<close> (on a table whose row ids are distinct): both run the
  uniqueness check.
\<close>

lemma fold_max_ge_init: "(a::nat) \<le> fold max xs a"
proof (induction xs arbitrary: a)
  case Nil
  then show ?case by simp
next
  case (Cons x xs)
  have "a \<le> max x a" by simp
  also have "\<dots> \<le> fold max xs (max x a)" by (rule Cons.IH)
  finally show ?case by simp
qed

lemma fold_max_ge_elem: "x \<in> set xs \<Longrightarrow> (x::nat) \<le> fold max xs a"
proof (induction xs arbitrary: a)
  case Nil
  then show ?case by simp
next
  case (Cons y ys)
  show ?case
  proof (cases "x = y")
    case True
    have "x \<le> max y a" using True by simp
    also have "\<dots> \<le> fold max ys (max y a)" by (rule fold_max_ge_init)
    finally show ?thesis by simp
  next
    case False
    with Cons.prems have "x \<in> set ys" by simp
    from Cons.IH [OF this] show ?thesis by simp
  qed
qed

lemma fresh_id_fresh: "r \<in> set tbl \<Longrightarrow> rec_id r < fresh_id tbl"
proof -
  assume "r \<in> set tbl"
  then have "rec_id r \<in> set (map rec_id tbl)" by simp
  from fold_max_ge_elem [OF this, of 0] show ?thesis by (simp add: fresh_id_def)
qed

lemma check_unique_None:
  "check_unique_markup_percentage tbl self = None \<longleftrightarrow>
     (\<forall>x\<in>set self. \<forall>r\<in>set tbl.
         markup_percentage r = markup_percentage x \<and> active r \<longrightarrow> rec_id r = rec_id x)"
  by (induction self) (auto simp: Let_def filter_empty_conv)

lemma validate_fields_unique:
  assumes "validate_fields tbl self vals = None" and "vals_markup_percentage vals \<noteq> None"
  shows "check_unique_markup_percentage tbl self = None"
  using assms by (auto simp: validate_fields_def split: option.splits if_splits)

lemma create_keeps_unique_active:
  assumes u: "unique_active tbl" and c: "factor_create tbl mp cf act = Inr tbl'"
  shows "unique_active tbl'"
proof -
  define row where
    "row = \<lparr>rec_id = fresh_id tbl, markup_percentage = mp, commission_factor = cf,
                active = (case act of None \<Rightarrow> True | Some a \<Rightarrow> a)\<rparr>"
  from c have t: "tbl' = tbl @ [row]"
    and v: "validate_fields (tbl @ [row]) [row]
              \<lparr>vals_markup_percentage = Some mp, vals_commission_factor = Some cf,
               vals_active = Some (active row)\<rparr> = None"
    by (auto simp: factor_create_def row_def Let_def split: option.splits)
  from validate_fields_unique [OF v] have "check_unique_markup_percentage (tbl @ [row]) [row] = None"
    by simp
  then have "\<forall>x\<in>set [row]. \<forall>r\<in>set (tbl @ [row]).
         markup_percentage r = markup_percentage x \<and> active r \<longrightarrow> rec_id r = rec_id x"
    by (simp only: check_unique_None)
  then have "\<forall>r\<in>set tbl. markup_percentage r = mp \<and> active r \<longrightarrow> rec_id r = fresh_id tbl"
    by (simp add: row_def)
  with fresh_id_fresh have "\<forall>r\<in>set tbl. active r \<longrightarrow> markup_percentage r \<noteq> mp" by fastforce
  then have "mp \<notin> set (map markup_percentage (filter active tbl))" by auto
  with u show ?thesis by (simp add: t unique_active_def row_def)
qed

lemma unique_active_iff:
  assumes "distinct (map rec_id tbl)"
  shows "unique_active tbl \<longleftrightarrow>
     (\<forall>r\<in>set tbl. \<forall>r'\<in>set tbl.
         active r \<and> active r' \<and> markup_percentage r = markup_percentage r' \<longrightarrow> rec_id r = rec_id r')"
proof -
  from assms have d: "distinct tbl" and i: "inj_on rec_id (set tbl)" by (simp_all add: distinct_map)
  have "unique_active tbl \<longleftrightarrow> inj_on markup_percentage (set (filter active tbl))"
    using d by (simp add: unique_active_def distinct_map)
  also have "\<dots> \<longleftrightarrow> (\<forall>r\<in>set tbl. \<forall>r'\<in>set tbl.
         active r \<and> active r' \<and> markup_percentage r = markup_percentage r' \<longrightarrow> r = r')"
    by (auto simp: inj_on_def)
  also have "\<dots> \<longleftrightarrow> (\<forall>r\<in>set tbl. \<forall>r'\<in>set tbl.
         active r \<and> active r' \<and> markup_percentage r = markup_percentage r' \<longrightarrow> rec_id r = rec_id r')"
    using i by (auto simp: inj_on_def)
  finally show ?thesis .
qed

lemma write_percentage_keeps_unique_active:
  assumes ids: "distinct (map rec_id tbl)" and u: "unique_active tbl"
    and k: "vals_markup_percentage vals \<noteq> None"
    and w: "factor_write tbl ids vals = Inr tbl'"
  shows "unique_active tbl'"
proof -
  define upd where "upd = (\<lambda>r. if rec_id r \<in> set ids then apply_factor_vals vals r else r)"
  have id_upd: "rec_id (upd r) = rec_id r" for r by (simp add: upd_def apply_factor_vals_def)
  from w have t: "tbl' = map upd tbl"
    and v: "validate_fields (map upd tbl) (filter (\<lambda>r. rec_id r \<in> set ids) (map upd tbl)) vals = None"
    by (auto simp: factor_write_def upd_def Let_def split: option.splits)
  have ids': "distinct (map rec_id tbl')" using ids by (simp add: t id_upd comp_def)
  from validate_fields_unique [OF v k]
  have "\<forall>x\<in>set (filter (\<lambda>r. rec_id r \<in> set ids) (map upd tbl)). \<forall>r\<in>set (map upd tbl).
         markup_percentage r = markup_percentage x \<and> active r \<longrightarrow> rec_id r = rec_id x"
    by (simp only: check_unique_None)
  then have chk: "\<forall>x\<in>set tbl'. rec_id x \<in> set ids \<longrightarrow> (\<forall>r\<in>set tbl'.
         markup_percentage r = markup_percentage x \<and> active r \<longrightarrow> rec_id r = rec_id x)"
    by (simp add: t)
  have old: "x \<in> set tbl" if "x \<in> set tbl'" "rec_id x \<notin> set ids" for x
  proof -
    from that(1) obtain a where a: "a \<in> set tbl" "x = upd a" by (auto simp: t)
    with that(2) have "rec_id a \<notin> set ids" by (simp add: id_upd)
    with a show ?thesis by (simp add: upd_def)
  qed
  have "\<forall>r\<in>set tbl'. \<forall>r'\<in>set tbl'.
         active r \<and> active r' \<and> markup_percentage r = markup_percentage r' \<longrightarrow> rec_id r = rec_id r'"
  proof (intro ballI impI)
    fix r r' assume r: "r \<in> set tbl'" and r': "r' \<in> set tbl'"
      and h: "active r \<and> active r' \<and> markup_percentage r = markup_percentage r'"
    show "rec_id r = rec_id r'"
    proof (cases "rec_id r \<in> set ids \<or> rec_id r' \<in> set ids")
      case True
      with chk r r' h show ?thesis by metis
    next
      case False
      with old r r' have "r \<in> set tbl" "r' \<in> set tbl" by blast+
      with h u show ?thesis using unique_active_iff [OF ids] by blast
    qed
  qed
  then show ?thesis using unique_active_iff [OF ids'] by blast
qed



section \<open>The lookup on an empty table\<close>

text \<open>
  Claim C7. Whatever the input \<open>p\<close>, when the table has no active row the lookup returns
  \<open>0.0\<close>: it does not raise, and the only trace of the empty table is one warning in the
  log.
\<close>

theorem empty_table_returns_zero:
  "\<forall>e\<in>set tbl. \<not> active e \<Longrightarrow>
     get_commission_factor tbl p = ([WarnNoFactorsConfigured], Inr 0)"
  by (rule get_commission_factor_empty)

theorem empty_table_returns_zero_witness:
  "get_commission_factor
     [\<lparr>rec_id = 1, markup_percentage = 15, commission_factor = 4 / 1000, active = False\<rparr>] 15
   = ([WarnNoFactorsConfigured], Inr 0)"
proof -
  have h: "\<forall>e\<in>set [\<lparr>rec_id = 1, markup_percentage = 15, commission_factor = 4 / 1000,
                       active = False\<rparr>]. \<not> active e"
    by simp
  from empty_table_returns_zero [OF h, of 15] show ?thesis .
qed



section \<open>The four cases of the lookup\<close>






section \<open>Rounding before the lookup\<close>








section \<open>The derived fields of a line\<close>





text \<open>
  Claim C4. When the unit price is zero, or the unit cost is absent or zero, the four
  derived fields are all \<open>0.0\<close>. When the derived markup percentage is 0 the lookup is
  skipped: the factor is \<open>0.0\<close> whatever the table holds, even a row for percentage 0
  (the witness has one, with factor 0.005).
\<close>

theorem no_markup_data_no_commission:
  "(price_unit line = 0 \<or> purchase_price line = None \<or> purchase_price line = Some 0 \<longrightarrow>
      compute_line tbl line =
        Inr (line\<lparr>line_markup_percentage := 0, markup_amount := 0,
                   line_commission_factor := 0, commission_amount := 0\<rparr>))
   \<and> (line_markup_percentage line = 0 \<longrightarrow>
        compute_commission_factor tbl line = ([], Inr (line\<lparr>line_commission_factor := 0\<rparr>)))
   \<and> (line_markup_percentage (compute_markup_percentage line) = 0 \<longrightarrow>
        (\<exists>line'. compute_line tbl line = Inr line'
           \<and> line_commission_factor line' = 0 \<and> commission_amount line' = 0))"
proof (intro conjI impI)
  assume a: "price_unit line = 0 \<or> purchase_price line = None \<or> purchase_price line = Some 0"
  note nd = no_markup_data [OF a]
  have z: "line_markup_percentage (compute_markup_percentage line) = 0" by (simp add: nd)
  have "compute_markup_amount (compute_markup_percentage line)
          = line\<lparr>line_markup_percentage := 0, markup_amount := 0\<rparr>"
    using a by (auto simp: nd(1) compute_markup_amount_def split: option.splits)
  with compute_line_zero [OF z, of tbl]
  show "compute_line tbl line =
        Inr (line\<lparr>line_markup_percentage := 0, markup_amount := 0,
                   line_commission_factor := 0, commission_amount := 0\<rparr>)"
    by simp
next
  assume "line_markup_percentage line = 0"
  then show "compute_commission_factor tbl line = ([], Inr (line\<lparr>line_commission_factor := 0\<rparr>))"
    by (simp add: compute_commission_factor_def)
next
  assume z: "line_markup_percentage (compute_markup_percentage line) = 0"
  from compute_line_zero [OF z, of tbl]
  show "\<exists>line'. compute_line tbl line = Inr line'
           \<and> line_commission_factor line' = 0 \<and> commission_amount line' = 0"
    by simp
qed


theorem no_markup_data_no_commission_witness:
  "compute_line [\<lparr>rec_id = 1, markup_percentage = 0, commission_factor = 5 / 1000, active = True\<rparr>]
       (new_line 0 (Some 80) 1)
     = Inr ((new_line 0 (Some 80) 1)
              \<lparr>line_markup_percentage := 0, markup_amount := 0,
               line_commission_factor := 0, commission_amount := 0\<rparr>)
   \<and> compute_line [\<lparr>rec_id = 1, markup_percentage = 0, commission_factor = 5 / 1000, active = True\<rparr>]
       (new_line 100 None 1)
     = Inr ((new_line 100 None 1)
              \<lparr>line_markup_percentage := 0, markup_amount := 0,
               line_commission_factor := 0, commission_amount := 0\<rparr>)
   \<and> (\<exists>line'. compute_line
                  [\<lparr>rec_id = 1, markup_percentage = 0, commission_factor = 5 / 1000, active = True\<rparr>]
                  (new_line 100 (Some 100) 1) = Inr line'
          \<and> line_commission_factor line' = 0 \<and> commission_amount line' = 0)
   \<and> resolve [\<lparr>rec_id = 1, markup_percentage = 0, commission_factor = 5 / 1000, active = True\<rparr>] 0
     = Inr (5 / 1000)"
proof -
  let ?T = "[\<lparr>rec_id = 1, markup_percentage = 0, commission_factor = 5 / 1000, active = True\<rparr>]"
  have h1: "price_unit (new_line 0 (Some 80) 1) = 0 \<or> purchase_price (new_line 0 (Some 80) 1) = None
              \<or> purchase_price (new_line 0 (Some 80) 1) = Some 0"
    by (simp add: new_line_def)
  have h2: "price_unit (new_line 100 None 1) = 0 \<or> purchase_price (new_line 100 None 1) = None
              \<or> purchase_price (new_line 100 None 1) = Some 0"
    by (simp add: new_line_def)
  have h3: "line_markup_percentage (compute_markup_percentage (new_line 100 (Some 100) 1)) = 0"
    by code_simp
  have r: "resolve ?T 0 = Inr (5 / 1000)" by code_simp
  from no_markup_data_no_commission [of "new_line 0 (Some 80) 1" ?T] h1
       no_markup_data_no_commission [of "new_line 100 None 1" ?T] h2
       no_markup_data_no_commission [of "new_line 100 (Some 100) 1" ?T] h3 r
  show ?thesis by blast
qed



section \<open>Lines sold at a loss\<close>








section \<open>The aggregates of an order\<close>











section \<open>Writing the vendor of a line\<close>

text \<open>
  Claim C8. A write that names \<open>product_vendor_id\<close> on a line succeeds exactly when the
  state of the line's order, read at the time of the write, is \<open>draft\<close> or \<open>sent\<close>. In any
  other state it raises the validation error and the store is left as it was, so the
  vendor keeps its value; when it succeeds the line carries the written vendor. A write
  that does not name the field always passes the guard. On a recordset of several lines
  the write succeeds exactly when every line's order is in one of the two states.
\<close>

theorem vendor_write_guard:
  assumes row: "line_rows st i = Some line"
  shows "(vals_product_vendor_id vals \<noteq> None \<longrightarrow>
            (fst (write_lines st [i] vals) = Inr True \<longleftrightarrow>
               order_state st (order_id line) = Some ''draft''
               \<or> order_state st (order_id line) = Some ''sent''))
       \<and> (vals_product_vendor_id vals \<noteq> None
            \<and> order_state st (order_id line) \<noteq> Some ''draft''
            \<and> order_state st (order_id line) \<noteq> Some ''sent'' \<longrightarrow>
            write_lines st [i] vals = (Inl (ValidationError VendorNotEditable), st))
       \<and> (vals_product_vendor_id vals = Some v
            \<and> (order_state st (order_id line) = Some ''draft''
                 \<or> order_state st (order_id line) = Some ''sent'') \<longrightarrow>
            (\<exists>line'. line_rows (snd (write_lines st [i] vals)) i = Some line'
                \<and> product_vendor_id line' = v))
       \<and> (vals_product_vendor_id vals = None \<longrightarrow>
            write_lines st [i] vals = (Inr True, super_write st [i] vals))
       \<and> (vals_product_vendor_id vals \<noteq> None \<longrightarrow>
            (fst (write_lines st ids vals) = Inr True \<longleftrightarrow>
               (\<forall>j\<in>set ids. \<forall>l. line_rows st j = Some l \<longrightarrow> can_edit_product_vendor st l)))"
proof (intro conjI impI)
  assume t: "vals_product_vendor_id vals \<noteq> None"
  show "fst (write_lines st [i] vals) = Inr True \<longleftrightarrow>
               order_state st (order_id line) = Some ''draft''
               \<or> order_state st (order_id line) = Some ''sent''"
    using t row by (simp add: write_lines_def can_edit_iff [symmetric])
  show "fst (write_lines st ids vals) = Inr True \<longleftrightarrow>
               (\<forall>j\<in>set ids. \<forall>l. line_rows st j = Some l \<longrightarrow> can_edit_product_vendor st l)"
    using t vendor_guard_None [of st ids]
    by (cases "vendor_guard st ids") (auto simp: write_lines_def)
next
  assume "vals_product_vendor_id vals \<noteq> None
            \<and> order_state st (order_id line) \<noteq> Some ''draft''
            \<and> order_state st (order_id line) \<noteq> Some ''sent''"
  then show "write_lines st [i] vals = (Inl (ValidationError VendorNotEditable), st)"
    using row by (simp add: write_lines_def can_edit_iff)
next
  assume "vals_product_vendor_id vals = Some v
            \<and> (order_state st (order_id line) = Some ''draft''
                 \<or> order_state st (order_id line) = Some ''sent'')"
  then show "\<exists>line'. line_rows (snd (write_lines st [i] vals)) i = Some line'
                \<and> product_vendor_id line' = v"
    using row by (auto simp: write_lines_def can_edit_iff apply_line_vals_def)
next
  assume "vals_product_vendor_id vals = None"
  then show "write_lines st [i] vals = (Inr True, super_write st [i] vals)"
    by (simp add: write_lines_def)
qed


theorem vendor_write_guard_witness:
  "fst (write_lines (test_store ''draft'') [10] (vendor_vals (Some 8))) = Inr True
   \<and> (\<exists>line'. line_rows (snd (write_lines (test_store ''draft'') [10] (vendor_vals (Some 8)))) 10
                 = Some line'
          \<and> product_vendor_id line' = Some 8)
   \<and> write_lines (test_store ''sale'') [10] (vendor_vals (Some 8))
       = (Inl (ValidationError VendorNotEditable), test_store ''sale'')
   \<and> write_lines (test_store ''sale'') [10] (price_vals 90)
       = (Inr True, super_write (test_store ''sale'') [10] (price_vals 90))"
proof -
  let ?row = "(new_line 100 (Some 80) 1)\<lparr>product_vendor_id := Some 7\<rparr>"
  have r: "line_rows (test_store s) 10 = Some ?row" for s by (simp add: test_store_def)
  have d: "order_state (test_store ''draft'') (order_id ?row) = Some ''draft''"
    by (simp add: test_store_def new_line_def)
  have c1: "order_state (test_store ''sale'') (order_id ?row) \<noteq> Some ''draft''"
    and c2: "order_state (test_store ''sale'') (order_id ?row) \<noteq> Some ''sent''"
    by (simp_all add: test_store_def new_line_def)
  have t: "vals_product_vendor_id (vendor_vals (Some 8)) = Some (Some 8)"
    by (simp add: vendor_vals_def)
  then have t': "vals_product_vendor_id (vendor_vals (Some 8)) \<noteq> None" by simp
  have n: "vals_product_vendor_id (price_vals 90) = None" by (simp add: price_vals_def)
  from vendor_write_guard [OF r, of "vendor_vals (Some 8)" "''draft''" "Some 8"] d t t'
       vendor_write_guard [OF r, of "vendor_vals (Some 8)" "''sale''"] c1 c2
       vendor_write_guard [OF r, of "price_vals 90" "''sale''"] n
  show ?thesis by blast
qed



section \<open>The uniqueness invariant and the \<open>active\<close> flag\<close>

text \<open>
  Claim C9 does not hold of the code. The uniqueness check is declared with
  \<open>@api.constrains("markup_percentage")\<close>, so a write that names only \<open>active\<close> does not
  run it. From the empty table: create 20 \<open>\<rightarrow>\<close> 0.010, deactivate it, create 20 \<open>\<rightarrow>\<close> 0.015
  (accepted, the first row is inactive), then write \<open>active = True\<close> on the first row: the
  write succeeds and two active rows hold percentage 20. The lookup of 20 then raises
  instead of returning a factor. Creates and writes of \<open>markup_percentage\<close> do keep the
  invariant (\<open>create_keeps_unique_active\<close>, \<open>write_percentage_keeps_unique_active\<close>).
\<close>

theorem reactivation_breaks_uniqueness:
  "factor_create [] 20 (10 / 1000) None
     = Inr [\<lparr>rec_id = 1, markup_percentage = 20, commission_factor = 10 / 1000, active = True\<rparr>]
   \<and> factor_write
       [\<lparr>rec_id = 1, markup_percentage = 20, commission_factor = 10 / 1000, active = True\<rparr>]
       [1] (active_vals False)
     = Inr [\<lparr>rec_id = 1, markup_percentage = 20, commission_factor = 10 / 1000, active = False\<rparr>]
   \<and> factor_create
       [\<lparr>rec_id = 1, markup_percentage = 20, commission_factor = 10 / 1000, active = False\<rparr>]
       20 (15 / 1000) None
     = Inr [\<lparr>rec_id = 1, markup_percentage = 20, commission_factor = 10 / 1000, active = False\<rparr>,
            \<lparr>rec_id = 2, markup_percentage = 20, commission_factor = 15 / 1000, active = True\<rparr>]
   \<and> unique_active
       [\<lparr>rec_id = 1, markup_percentage = 20, commission_factor = 10 / 1000, active = False\<rparr>,
        \<lparr>rec_id = 2, markup_percentage = 20, commission_factor = 15 / 1000, active = True\<rparr>]
   \<and> factor_write
       [\<lparr>rec_id = 1, markup_percentage = 20, commission_factor = 10 / 1000, active = False\<rparr>,
        \<lparr>rec_id = 2, markup_percentage = 20, commission_factor = 15 / 1000, active = True\<rparr>]
       [1] (active_vals True)
     = Inr [\<lparr>rec_id = 1, markup_percentage = 20, commission_factor = 10 / 1000, active = True\<rparr>,
            \<lparr>rec_id = 2, markup_percentage = 20, commission_factor = 15 / 1000, active = True\<rparr>]
   \<and> \<not> unique_active
       [\<lparr>rec_id = 1, markup_percentage = 20, commission_factor = 10 / 1000, active = True\<rparr>,
        \<lparr>rec_id = 2, markup_percentage = 20, commission_factor = 15 / 1000, active = True\<rparr>]
   \<and> resolve
       [\<lparr>rec_id = 1, markup_percentage = 20, commission_factor = 10 / 1000, active = True\<rparr>,
        \<lparr>rec_id = 2, markup_percentage = 20, commission_factor = 15 / 1000, active = True\<rparr>] 20
     = Inl ExpectedSingleton"
  by code_simp


end
